theory Spec2Isabelle
  imports Complex_Main
begin

section \<open>JavaScript numbers\<close>

text \<open>
  The scoring code computes on JavaScript numbers. A number is modelled as a real
  number or one of the three special values of IEEE-754 arithmetic. The special values
  follow the language's rules (a zero divisor gives an infinity or \<open>NaN\<close>, every
  comparison with \<open>NaN\<close> is false, \<open>Math.min\<close> and \<open>Math.max\<close> return \<open>NaN\<close> when
  an argument is \<open>NaN\<close>). Arithmetic on finite values is exact: the rounding error of
  the double format and overflow to an infinity are not modelled, and zero carries no
  sign (a division by zero takes the sign of the dividend).
\<close>

datatype number = Finite real | Infinity | NegInfinity | NaN

fun sign :: "number \<Rightarrow> real" where
  "sign (Finite x) = sgn x"
| "sign Infinity = 1"
| "sign NegInfinity = - 1"
| "sign NaN = 0"

definition signed_infinity :: "real \<Rightarrow> number" where
  "signed_infinity s = (if 0 < s then Infinity else if s < 0 then NegInfinity else NaN)"

fun js_add :: "number \<Rightarrow> number \<Rightarrow> number" where
  "js_add (Finite x) (Finite y) = Finite (x + y)"
| "js_add NaN b = NaN"
| "js_add a NaN = NaN"
| "js_add Infinity NegInfinity = NaN"
| "js_add NegInfinity Infinity = NaN"
| "js_add Infinity b = Infinity"
| "js_add a Infinity = Infinity"
| "js_add NegInfinity b = NegInfinity"
| "js_add a NegInfinity = NegInfinity"

fun js_neg :: "number \<Rightarrow> number" where
  "js_neg (Finite x) = Finite (- x)"
| "js_neg Infinity = NegInfinity"
| "js_neg NegInfinity = Infinity"
| "js_neg NaN = NaN"

definition js_sub :: "number \<Rightarrow> number \<Rightarrow> number" where
  "js_sub a b = js_add a (js_neg b)"

fun js_mul :: "number \<Rightarrow> number \<Rightarrow> number" where
  "js_mul (Finite x) (Finite y) = Finite (x * y)"
| "js_mul NaN b = NaN"
| "js_mul a NaN = NaN"
| "js_mul a b = signed_infinity (sign a * sign b)"

fun js_div :: "number \<Rightarrow> number \<Rightarrow> number" where
  "js_div (Finite x) (Finite y) = (if y = 0 then signed_infinity (sgn x) else Finite (x / y))"
| "js_div NaN b = NaN"
| "js_div a NaN = NaN"
| "js_div (Finite x) b = Finite 0"
| "js_div a (Finite y) = signed_infinity (sign a * (if y < 0 then - 1 else 1))"
| "js_div a b = NaN"

fun js_lt :: "number \<Rightarrow> number \<Rightarrow> bool" where
  "js_lt (Finite x) (Finite y) = (x < y)"
| "js_lt NaN b = False"
| "js_lt a NaN = False"
| "js_lt a NegInfinity = False"
| "js_lt Infinity b = False"
| "js_lt a b = True"

definition js_gt :: "number \<Rightarrow> number \<Rightarrow> bool" where
  "js_gt a b = js_lt b a"

definition js_le :: "number \<Rightarrow> number \<Rightarrow> bool" where
  "js_le a b = (a \<noteq> NaN \<and> b \<noteq> NaN \<and> \<not> js_lt b a)"

definition js_ge :: "number \<Rightarrow> number \<Rightarrow> bool" where
  "js_ge a b = js_le b a"

definition Math_min :: "number \<Rightarrow> number \<Rightarrow> number" where
  "Math_min a b = (if a = NaN \<or> b = NaN then NaN else if js_lt b a then b else a)"

definition Math_max :: "number \<Rightarrow> number \<Rightarrow> number" where
  "Math_max a b = (if a = NaN \<or> b = NaN then NaN else if js_lt a b then b else a)"

fun Math_round :: "number \<Rightarrow> number" where
  "Math_round (Finite x) = Finite (of_int (round x))"
| "Math_round a = a"

definition of_length :: "'a list \<Rightarrow> number" where
  "of_length xs = Finite (real (length xs))"


section \<open>Strings and JSON values\<close>

text \<open>
  A string is the list of its code units; only code units below 256 occur.
  \<open>toLowerCase\<close> maps the upper-case letters of that range to their lower-case forms.
\<close>

definition toLowerCase_char :: "char \<Rightarrow> char" where
  "toLowerCase_char c =
     (let n = (of_char c :: nat)
      in if (65 \<le> n \<and> n \<le> 90) \<or> (192 \<le> n \<and> n \<le> 222 \<and> n \<noteq> 215)
         then char_of (n + 32) else c)"

definition toLowerCase :: "string \<Rightarrow> string" where
  "toLowerCase s = map toLowerCase_char s"

datatype json =
    JNumber number
  | JString string
  | JBool bool
  | JArray "json list"
  | JObject "(string \<times> json) list"

section \<open>The risk framework of the \<open>/api/fisheries\<close> handler\<close>

text \<open>
  The record that the handler builds from one row of the stock file. \<open>Number(...)\<close>
  has already been applied to the numeric columns, so a column that is not a number is
  \<open>NaN\<close> here.
\<close>

record stock_record =
  id_field :: number
  region :: string
  species :: string
  stock_health_percent :: number
  trend :: string
  msy_tonnes :: number
  current_catch_tonnes :: number
  protected :: bool

text \<open>\<open>req.query.region?.toLowerCase()\<close>: the query parameter may be absent.\<close>

definition regionQuery_of :: "string option \<Rightarrow> string option" where
  "regionQuery_of region_param = map_option toLowerCase region_param"

text \<open>\<open>!regionQuery\<close> holds for an absent parameter and for the empty string.\<close>

definition falsy :: "string option \<Rightarrow> bool" where
  "falsy q = (q = None \<or> q = Some [])"

text \<open>The \<open>data\<close> callback of the stream: a record is pushed when it passes the region filter.\<close>

definition on_data :: "string option \<Rightarrow> stock_record list \<Rightarrow> stock_record \<Rightarrow> stock_record list" where
  "on_data regionQuery results record =
     (if falsy regionQuery \<or> Some (toLowerCase (region record)) = regionQuery
      then results @ [record] else results)"

definition avgStockHealth :: "stock_record list \<Rightarrow> number" where
  "avgStockHealth results =
     js_div (foldl (\<lambda>sum s. js_add sum (stock_health_percent s)) (Finite 0) results)
            (of_length results)"

definition avgMSY :: "stock_record list \<Rightarrow> number" where
  "avgMSY results =
     js_div (foldl (\<lambda>sum s. js_add sum
                      (js_mul (js_div (current_catch_tonnes s) (msy_tonnes s)) (Finite 100)))
                   (Finite 0) results)
            (of_length results)"

definition msyPressureScore :: "stock_record list \<Rightarrow> number" where
  "msyPressureScore results = Math_min (avgMSY results) (Finite 120)"

definition decliningCount :: "stock_record list \<Rightarrow> nat" where
  "decliningCount results =
     length (filter (\<lambda>s. trend s = ''Declining'' \<or> trend s = ''Critical'') results)"

definition decliningPercent :: "stock_record list \<Rightarrow> number" where
  "decliningPercent results =
     js_mul (js_div (Finite (real (decliningCount results))) (of_length results)) (Finite 100)"

definition climateScore :: "number \<Rightarrow> number" where
  "climateScore sst =
     (if js_gt sst (Finite 30) then Finite 90
      else if js_gt sst (Finite 28) then Finite 60
      else if js_gt sst (Finite 26) then Finite 40
      else Finite 20)"

definition sustainabilityIndex :: "stock_record list \<Rightarrow> number \<Rightarrow> number" where
  "sustainabilityIndex results sst =
     js_add (js_add (js_add
       (js_mul (avgStockHealth results) (Finite 0.5))
       (js_mul (js_sub (Finite 100) (msyPressureScore results)) (Finite 0.25)))
       (js_mul (js_sub (Finite 100) (decliningPercent results)) (Finite 0.15)))
       (js_mul (js_sub (Finite 100) (climateScore sst)) (Finite 0.10))"

definition finalIndex :: "stock_record list \<Rightarrow> number \<Rightarrow> number" where
  "finalIndex results sst =
     Math_max (Finite 0) (Math_min (Finite 100) (Math_round (sustainabilityIndex results sst)))"

definition collapseRisk :: "stock_record list \<Rightarrow> number \<Rightarrow> number" where
  "collapseRisk results sst =
     js_add (js_add (js_add
       (js_mul (msyPressureScore results) (Finite 0.35))
       (js_mul (decliningPercent results) (Finite 0.25)))
       (js_mul (js_sub (Finite 100) (avgStockHealth results)) (Finite 0.25)))
       (js_mul (climateScore sst) (Finite 0.15))"

definition finalCollapseRisk :: "stock_record list \<Rightarrow> number \<Rightarrow> number" where
  "finalCollapseRisk results sst =
     Math_max (Finite 0) (Math_min (Finite 100) (Math_round (collapseRisk results sst)))"

definition projectedIndex :: "stock_record list \<Rightarrow> number \<Rightarrow> number" where
  "projectedIndex results sst =
     js_sub (finalIndex results sst) (js_mul (finalCollapseRisk results sst) (Finite 0.05))"

definition sustLevel :: "stock_record list \<Rightarrow> number \<Rightarrow> string" where
  "sustLevel results sst =
     (if js_ge (finalIndex results sst) (Finite 70) then ''Sustainable''
      else if js_lt (finalIndex results sst) (Finite 50) then ''Critical''
      else ''Caution'')"

definition riskLevel :: "stock_record list \<Rightarrow> number \<Rightarrow> string" where
  "riskLevel results sst =
     (if js_lt (finalCollapseRisk results sst) (Finite 30) then ''Low''
      else if js_gt (finalCollapseRisk results sst) (Finite 60) then ''High''
      else ''Moderate'')"

text \<open>
  \<open>parseFloat(sst.toFixed(1))\<close>: the nearest multiple of one tenth, a tie going away
  from zero; the special values pass through the string unchanged.
\<close>

fun toFixed1 :: "number \<Rightarrow> number" where
  "toFixed1 (Finite x) = Finite (sgn x * of_int \<lfloor>\<bar>x\<bar> * 10 + 1 / 2\<rfloor> / 10)"
| "toFixed1 a = a"

definition record_json :: "stock_record \<Rightarrow> json" where
  "record_json r = JObject
     [(''id'', JNumber (id_field r)),
      (''region'', JString (region r)),
      (''species'', JString (species r)),
      (''stock_health_percent'', JNumber (stock_health_percent r)),
      (''trend'', JString (trend r)),
      (''msy_tonnes'', JNumber (msy_tonnes r)),
      (''current_catch_tonnes'', JNumber (current_catch_tonnes r)),
      (''protected'', JBool (protected r))]"

text \<open>The \<open>end\<close> callback of the stream: the value handed to \<open>res.json\<close>.\<close>

definition on_end :: "string option \<Rightarrow> number \<Rightarrow> stock_record list \<Rightarrow> json" where
  "on_end regionQuery sst results =
     (if length results = 0 then JObject [(''count'', JNumber (Finite 0))]
      else JObject
       [(''region'', JString (if falsy regionQuery then ''All Regions'' else the regionQuery)),
        (''sustainability_index'', JNumber (finalIndex results sst)),
        (''sustainability_level'', JString (sustLevel results sst)),
        (''collapse_risk'', JObject
           [(''score'', JNumber (finalCollapseRisk results sst)),
            (''level'', JString (riskLevel results sst))]),
        (''climate_stress'', JObject
           [(''sst'', JNumber (toFixed1 sst)),
            (''score'', JNumber (climateScore sst))]),
        (''projection'', JObject
           [(''index_6_month'', JNumber (Math_max (Finite 0) (Math_round (projectedIndex results sst)))),
            (''change'', JNumber (Math_round (js_sub (projectedIndex results sst) (finalIndex results sst))))]),
        (''stats'', JObject
           [(''count'', JNumber (of_length results)),
            (''avg_stock_health'', JNumber (Math_round (avgStockHealth results))),
            (''msy_utilization'', JNumber (Math_round (avgMSY results))),
            (''declining_percent'', JNumber (Math_round (decliningPercent results))),
            (''critical_species_count'', JNumber (of_length
               (filter (\<lambda>r. js_lt (stock_health_percent r) (Finite 40)) results)))]),
        (''data'', JArray (map record_json results))])"

text \<open>
  The handler after the sea-surface temperature has been fetched: \<open>file\<close> is the parsed
  stock file, \<open>None\<close> when it does not exist. The result is the status and the body
  of the response.
\<close>

definition fisheries :: "string option \<Rightarrow> number \<Rightarrow> stock_record list option \<Rightarrow> nat \<times> json" where
  "fisheries region_param sst file =
     (let regionQuery = regionQuery_of region_param
      in case file of
           None \<Rightarrow> (404, JObject [(''error'', JString ''Data file not found'')])
         | Some rows \<Rightarrow> (200, on_end regionQuery sst (foldl (on_data regionQuery) [] rows)))"

text \<open>
  The specification calls the scoring step \<open>scoreRisk(stockRecords, sstSignal)\<close>: it is
  the \<open>end\<close> callback on a list that has already been filtered.
\<close>

definition scoreRisk :: "stock_record list \<Rightarrow> number \<Rightarrow> json" where
  "scoreRisk stockRecords sst = on_end None sst stockRecords"


section \<open>The decision logic of \<open>fisheries.js\<close>\<close>

text \<open>
  A species of the reference dataset, with the fields the logic reads. \<open>temp_range\<close>
  is the two-element array \<open>[low, high]\<close>, \<open>season_months\<close> the array of month numbers.
\<close>

record species_record =
  name :: string
  temp_range :: "number \<times> number"
  max_wave_height :: number
  season_months :: "number list"
  legal_status :: string
  stock_health :: number

text \<open>The latest ocean reading, \<open>currentData\<close>.\<close>

record conditions =
  sea_surface_temp :: number
  wave_height :: number

text \<open>
  What \<open>new Date()\<close> reads from the wall clock, in local time; \<open>getMonth\<close> is the
  month index from 0 (January) to 11.
\<close>

record date =
  getFullYear :: int
  getMonth :: nat
  getDate :: nat
  getHours :: nat

text \<open>
  A template literal is kept as the list of its parts, the fixed text and the
  substituted values; the conversion of a number to its decimal text is not modelled.
\<close>

datatype piece = Str string | Val number

type_synonym template = "piece list"

record verdict =
  suitable :: bool
  reason :: template

text \<open>\<open>Array.prototype.includes\<close> on an array of numbers.\<close>

definition includes_number :: "number list \<Rightarrow> number \<Rightarrow> bool" where
  "includes_number xs v = (v \<in> set xs)"

text \<open>The degree sign, code unit 176.\<close>

definition degree_sign :: string where
  "degree_sign = [CHR 0xB0]"

text \<open>
  \<open>evaluateSuitability(species, currentData)\<close>. The function reads the current month
  from the wall clock; the reading is the parameter \<open>now\<close>.
\<close>

definition evaluateSuitability :: "date \<Rightarrow> species_record \<Rightarrow> conditions \<Rightarrow> verdict" where
  "evaluateSuitability now s currentData =
     (let temp = sea_surface_temp currentData;
          wave = wave_height currentData;
          currentMonth = Finite (real (getMonth now + 1))
      in if legal_status s = ''Protected'' then
           \<lparr>suitable = False,
            reason = [Str ''Species is legally protected. Conservation active.'']\<rparr>
         else if \<not> includes_number (season_months s) currentMonth then
           \<lparr>suitable = False, reason = [Str ''Outside of legal fishing season.'']\<rparr>
         else if js_lt temp (fst (temp_range s)) \<or> js_gt temp (snd (temp_range s)) then
           \<lparr>suitable = False,
            reason = [Str ''Water temp ('', Val temp,
                      Str (degree_sign @ ''C) outside optimal range (''),
                      Val (fst (temp_range s)), Str ''-'', Val (snd (temp_range s)),
                      Str (degree_sign @ ''C).'')]\<rparr>
         else if js_gt wave (max_wave_height s) then
           \<lparr>suitable = False,
            reason = [Str ''Wave height ('', Val wave, Str ''m) exceeds safety limit ('',
                      Val (max_wave_height s), Str ''m).'']\<rparr>
         else
           \<lparr>suitable = True, reason = [Str ''Conditions optimal for sustainable catch.'']\<rparr>)"








record alert =
  type :: string
  message :: template

text \<open>The callback of \<open>speciesList.forEach\<close>: it pushes onto \<open>alerts\<close>.\<close>

definition forEach_species :: "alert list \<Rightarrow> species_record \<Rightarrow> alert list" where
  "forEach_species alerts s =
     (let alerts1 =
            (if js_lt (stock_health s) (Finite 50) then
               alerts @ [\<lparr>type = ''warning'',
                           message = [Str ''Biological Alert: '', Str (name s),
                                      Str '' stocks are under pressure ('', Val (stock_health s),
                                      Str ''%).'']\<rparr>]
             else alerts)
      in if legal_status s = ''Protected'' then
           alerts1 @ [\<lparr>type = ''info'',
                        message = [Str ''Conservation: '', Str (name s),
                                   Str '' is strictly protected this area.'']\<rparr>]
         else alerts1)"

definition generateFisheriesAlerts ::
    "species_record list \<Rightarrow> number \<Rightarrow> conditions \<Rightarrow> alert list" where
  "generateFisheriesAlerts speciesList sustainabilityScore currentData =
     (let alerts0 = [];
          alerts1 =
            (if js_gt (wave_height currentData) (Finite 3) then
               alerts0 @ [\<lparr>type = ''danger'',
                            message = [Str ''Rough Sea Warning: High waves pose safety risk for small vessels.'']\<rparr>]
             else alerts0);
          alerts2 =
            (if js_lt sustainabilityScore (Finite 60) then
               alerts1 @ [\<lparr>type = ''warning'',
                            message = [Str ''Low Sustainability Index: Recommendation to reduce fishing effort.'']\<rparr>]
             else alerts1)
      in foldl forEach_species alerts2 speciesList)"


section \<open>The statistics engine\<close>

text \<open>
  Modelled from the spec: the statistics engine is \<open>computeStats\<close> of the module
  \<open>utils/anomaly\<close>, which the chart component imports and whose source is missing from
  the repository files. The data model follows section 3 of the specification and the
  computation section 4.1.

  An observation of the series: a timestamp and, for each parameter key, a value that
  may be absent.
\<close>

record observation =
  timestamp :: nat
  parameter_values :: "string \<Rightarrow> number option"

record parameter_stats =
  mean :: number
  stdDev :: number
  min_stat :: number
  max_stat :: number
  anomalyCount :: nat
  moderateCount :: nat
  extremeCount :: nat

text \<open>
  Modelled from the spec: the validity test that the missing \<open>computeStats\<close> applies. A
  value is valid when it is present and a finite number; values that are missing or not
  numeric are excluded.
\<close>

definition valid_value :: "string \<Rightarrow> observation \<Rightarrow> real option" where
  "valid_value key obs =
     (case parameter_values obs key of Some (Finite x) \<Rightarrow> Some x | _ \<Rightarrow> None)"

text \<open>
  Modelled from the spec: the valid values of a series for one parameter key, in series
  order, as the missing \<open>computeStats\<close> collects them.
\<close>

definition valid_values :: "observation list \<Rightarrow> string \<Rightarrow> real list" where
  "valid_values series key = List.map_filter (valid_value key) series"

text \<open>
  Modelled from the spec: the z-score of the missing \<open>computeStats\<close>,
  \<open>(x - mean) / stdDev\<close>, defined as 0 when the standard deviation is 0.
\<close>

definition z_score :: "real \<Rightarrow> real \<Rightarrow> real \<Rightarrow> real" where
  "z_score m sd x = (if sd = 0 then 0 else (x - m) / sd)"

text \<open>
  Modelled from the spec: \<open>computeStats(series, parameterKey)\<close> of the missing module
  \<open>utils/anomaly\<close>. The mean, the population standard deviation
  \<open>sqrt(mean((x - mean)^2))\<close>, the minimum and the maximum are taken over the valid
  values only. A valid value is a moderate anomaly when the absolute value of its z-score
  lies in \<open>[2, 3)\<close> and an extreme one from 3 on; the anomaly count is the sum of the
  two. With no valid value every statistic is reported as zero.
\<close>

definition computeStats :: "observation list \<Rightarrow> string \<Rightarrow> parameter_stats" where
  "computeStats series key =
     (let xs = valid_values series key
      in if xs = [] then
           \<lparr>mean = Finite 0, stdDev = Finite 0, min_stat = Finite 0, max_stat = Finite 0,
            anomalyCount = 0, moderateCount = 0, extremeCount = 0\<rparr>
         else
           let n = real (length xs);
               m = sum_list xs / n;
               sd = sqrt (sum_list (map (\<lambda>x. (x - m)\<^sup>2) xs) / n);
               moderate = length (filter (\<lambda>x. 2 \<le> \<bar>z_score m sd x\<bar> \<and> \<bar>z_score m sd x\<bar> < 3) xs);
               extreme = length (filter (\<lambda>x. 3 \<le> \<bar>z_score m sd x\<bar>) xs)
           in \<lparr>mean = Finite m, stdDev = Finite sd,
               min_stat = Finite (Min (set xs)), max_stat = Finite (Max (set xs)),
               anomalyCount = moderate + extreme,
               moderateCount = moderate, extremeCount = extreme\<rparr>)"

section \<open>The formulas of the specification\<close>



definition spec_mean :: "real list \<Rightarrow> real" where
  "spec_mean xs = sum_list xs / real (length xs)"














text \<open>
  Sections 4.3 and 9: the rules of the suitability evaluation as an ordered table of
  condition and outcome, the first rule whose condition holds giving the result.
\<close>

definition protected_verdict :: verdict where
  "protected_verdict =
     \<lparr>suitable = False, reason = [Str ''Species is legally protected. Conservation active.'']\<rparr>"

definition season_verdict :: verdict where
  "season_verdict = \<lparr>suitable = False, reason = [Str ''Outside of legal fishing season.'']\<rparr>"

definition temperature_verdict :: "species_record \<Rightarrow> conditions \<Rightarrow> verdict" where
  "temperature_verdict s c =
     \<lparr>suitable = False,
      reason = [Str ''Water temp ('', Val (sea_surface_temp c),
                Str (degree_sign @ ''C) outside optimal range (''),
                Val (fst (temp_range s)), Str ''-'', Val (snd (temp_range s)),
                Str (degree_sign @ ''C).'')]\<rparr>"

definition wave_verdict :: "species_record \<Rightarrow> conditions \<Rightarrow> verdict" where
  "wave_verdict s c =
     \<lparr>suitable = False,
      reason = [Str ''Wave height ('', Val (wave_height c), Str ''m) exceeds safety limit ('',
                Val (max_wave_height s), Str ''m).'']\<rparr>"

definition suitable_verdict :: verdict where
  "suitable_verdict =
     \<lparr>suitable = True, reason = [Str ''Conditions optimal for sustainable catch.'']\<rparr>"

definition outside_temp_range :: "species_record \<Rightarrow> conditions \<Rightarrow> bool" where
  "outside_temp_range s c =
     (js_lt (sea_surface_temp c) (fst (temp_range s)) \<or> js_gt (sea_surface_temp c) (snd (temp_range s)))"

definition spec_rules :: "date \<Rightarrow> species_record \<Rightarrow> conditions \<Rightarrow> (bool \<times> verdict) list" where
  "spec_rules now s c =
     [(legal_status s = ''Protected'', protected_verdict),
      (\<not> includes_number (season_months s) (Finite (real (getMonth now + 1))), season_verdict),
      (outside_temp_range s c, temperature_verdict s c),
      (js_gt (wave_height c) (max_wave_height s), wave_verdict s c)]"

fun first_match :: "(bool \<times> 'a) list \<Rightarrow> 'a \<Rightarrow> 'a" where
  "first_match [] d = d"
| "first_match ((b, v) # rules) d = (if b then v else first_match rules d)"

text \<open>Section 4.6: the alerts each rule emits, in the order of the rules.\<close>

definition danger_alert :: alert where
  "danger_alert = \<lparr>type = ''danger'',
     message = [Str ''Rough Sea Warning: High waves pose safety risk for small vessels.'']\<rparr>"

definition low_index_alert :: alert where
  "low_index_alert = \<lparr>type = ''warning'',
     message = [Str ''Low Sustainability Index: Recommendation to reduce fishing effort.'']\<rparr>"

definition stock_alert :: "species_record \<Rightarrow> alert" where
  "stock_alert s = \<lparr>type = ''warning'',
     message = [Str ''Biological Alert: '', Str (name s), Str '' stocks are under pressure ('',
                Val (stock_health s), Str ''%).'']\<rparr>"

definition protected_alert :: "species_record \<Rightarrow> alert" where
  "protected_alert s = \<lparr>type = ''info'',
     message = [Str ''Conservation: '', Str (name s), Str '' is strictly protected this area.'']\<rparr>"

definition spec_species_alerts :: "species_record \<Rightarrow> alert list" where
  "spec_species_alerts s =
     (if js_lt (stock_health s) (Finite 50) then [stock_alert s] else [])
     @ (if legal_status s = ''Protected'' then [protected_alert s] else [])"

definition spec_alerts :: "species_record list \<Rightarrow> number \<Rightarrow> conditions \<Rightarrow> alert list" where
  "spec_alerts sl score c =
     (if js_gt (wave_height c) (Finite 3) then [danger_alert] else [])
     @ (if js_lt score (Finite 60) then [low_index_alert] else [])
     @ concat (map spec_species_alerts sl)"


section \<open>Auxiliary notions and example inputs\<close>

text \<open>The region filter of the \<open>data\<close> callback, as a predicate on a record.\<close>

definition matches_region :: "string option \<Rightarrow> stock_record \<Rightarrow> bool" where
  "matches_region regionQuery record =
     (falsy regionQuery \<or> Some (toLowerCase (region record)) = regionQuery)"

text \<open>The keys of a JSON object, in order.\<close>

fun json_keys :: "json \<Rightarrow> string list" where
  "json_keys (JObject kvs) = map fst kvs"
| "json_keys j = []"

text \<open>
  One result of a computation is not decreased to another: the second is at least the
  first, or one of them is \<open>NaN\<close>, with which no comparison holds.
\<close>

definition not_decreased :: "number \<Rightarrow> number \<Rightarrow> bool" where
  "not_decreased u v = (u = NaN \<or> v = NaN \<or> js_le u v)"

text \<open>
  The stock record of the scenario in section 8 of the specification: full utilization
  of the maximum sustainable yield, a stable trend, a stock health of 80 percent.
\<close>

definition stock_example :: stock_record where
  "stock_example = \<lparr>id_field = Finite 1, region = ''Indian Ocean'', species = ''Tuna'',
      stock_health_percent = Finite 80, trend = ''Stable'', msy_tonnes = Finite 100,
      current_catch_tonnes = Finite 100, protected = False\<rparr>"

text \<open>A row whose yield and catch columns are both zero.\<close>

definition stock_zero_msy :: stock_record where
  "stock_zero_msy = \<lparr>id_field = Finite 2, region = ''Indian Ocean'', species = ''Tuna'',
      stock_health_percent = Finite 80, trend = ''Stable'', msy_tonnes = Finite 0,
      current_catch_tonnes = Finite 0, protected = False\<rparr>"

text \<open>A second stock record: declining, with a stock health of 40 percent.\<close>

definition stock_example2 :: stock_record where
  "stock_example2 = \<lparr>id_field = Finite 3, region = ''Indian Ocean'', species = ''Sardine'',
      stock_health_percent = Finite 40, trend = ''Declining'', msy_tonnes = Finite 200,
      current_catch_tonnes = Finite 150, protected = False\<rparr>"

text \<open>
  The species of the scenarios in section 8 of the specification, open all year; the same
  species with a season from June to August; and a protected species.
\<close>

definition species_example :: species_record where
  "species_example = \<lparr>name = ''Yellowfin Tuna'', temp_range = (Finite 20, Finite 28),
      max_wave_height = Finite 2.5,
      season_months = map (\<lambda>m. Finite (real m)) [1 ..< 13],
      legal_status = ''Open'', stock_health = Finite 80\<rparr>"

definition species_seasonal :: species_record where
  "species_seasonal = species_example\<lparr>season_months := [Finite 6, Finite 7, Finite 8]\<rparr>"

definition species_protected :: species_record where
  "species_protected = species_example\<lparr>legal_status := ''Protected'', stock_health := Finite 35\<rparr>"

definition conditions_example :: conditions where
  "conditions_example = \<lparr>sea_surface_temp = Finite 25, wave_height = Finite 1\<rparr>"

definition conditions_hot :: conditions where
  "conditions_hot = \<lparr>sea_surface_temp = Finite 31, wave_height = Finite 1\<rparr>"

definition january :: date where
  "january = \<lparr>getFullYear = 2026, getMonth = 0, getDate = 15, getHours = 12\<rparr>"

definition january_later :: date where
  "january_later = \<lparr>getFullYear = 2027, getMonth = 0, getDate = 20, getHours = 8\<rparr>"

definition july :: date where
  "july = \<lparr>getFullYear = 2026, getMonth = 6, getDate = 15, getHours = 12\<rparr>"

text \<open>
  A series for the parameter \<open>WTMP\<close>: the five values of the scenario in section 8 of the
  specification, one reading that is not a number and one that is absent.
\<close>

definition reading :: "nat \<Rightarrow> number option \<Rightarrow> observation" where
  "reading t v = \<lparr>timestamp = t, parameter_values = (\<lambda>k. if k = ''WTMP'' then v else None)\<rparr>"

definition series_example :: "observation list" where
  "series_example =
     [reading 0 (Some (Finite 10)), reading 1 (Some (Finite 10)), reading 2 (Some NaN),
      reading 3 (Some (Finite 10)), reading 4 None, reading 5 (Some (Finite 10)),
      reading 6 (Some (Finite 50))]"

section \<open>Arithmetic on finite numbers\<close>












lemma js_add_NaN_right: "js_add a NaN = NaN"
  by (cases a) simp_all

section \<open>Properties of the risk framework\<close>

text \<open>
  C3. The climate-stress score is the step function of the sea-surface temperature with
  the bands \<open>(-\<infinity>, 26]\<close>, \<open>(26, 28]\<close>, \<open>(28, 30]\<close> and \<open>(30, \<infinity>)\<close> and the values 20, 40, 60
  and 90: each boundary belongs to the band below it, so a temperature of exactly 28
  scores 40 and one of exactly 30 scores 60.
\<close>

theorem climateScore_bands:
  "(js_le sst (Finite 26) \<longrightarrow> climateScore sst = Finite 20)
   \<and> (js_gt sst (Finite 26) \<and> js_le sst (Finite 28) \<longrightarrow> climateScore sst = Finite 40)
   \<and> (js_gt sst (Finite 28) \<and> js_le sst (Finite 30) \<longrightarrow> climateScore sst = Finite 60)
   \<and> (js_gt sst (Finite 30) \<longrightarrow> climateScore sst = Finite 90)"
  by (cases sst) (simp_all add: climateScore_def js_gt_def js_le_def)

text \<open>The four bands at the temperatures 26, 28, 30 and 31.\<close>

theorem climateScore_bands_witness:
  "js_le (Finite 26) (Finite 26) \<and> climateScore (Finite 26) = Finite 20
   \<and> js_gt (Finite 28) (Finite 26) \<and> js_le (Finite 28) (Finite 28)
   \<and> climateScore (Finite 28) = Finite 40
   \<and> js_gt (Finite 30) (Finite 28) \<and> js_le (Finite 30) (Finite 30)
   \<and> climateScore (Finite 30) = Finite 60
   \<and> js_gt (Finite 31) (Finite 30) \<and> climateScore (Finite 31) = Finite 90"
proof -
  have a: "js_le (Finite 26) (Finite 26) \<and> climateScore (Finite 26) = Finite 20"
    using climateScore_bands [of "Finite 26"] by (simp add: js_le_def js_gt_def)
  have b: "js_gt (Finite 28) (Finite 26) \<and> js_le (Finite 28) (Finite 28)
           \<and> climateScore (Finite 28) = Finite 40"
    using climateScore_bands [of "Finite 28"] by (simp add: js_le_def js_gt_def)
  have c: "js_gt (Finite 30) (Finite 28) \<and> js_le (Finite 30) (Finite 30)
           \<and> climateScore (Finite 30) = Finite 60"
    using climateScore_bands [of "Finite 30"] by (simp add: js_le_def js_gt_def)
  have d: "js_gt (Finite 31) (Finite 30) \<and> climateScore (Finite 31) = Finite 90"
    using climateScore_bands [of "Finite 31"] by (simp add: js_le_def js_gt_def)
  from a b c d show ?thesis by simp
qed



text \<open>
  C1. The utilization division is not guarded. For a list holding one record whose yield
  and catch are both zero the quotient is \<open>NaN\<close>, which reaches the mean utilization,
  the sustainability index and the collapse risk.
\<close>

theorem zero_msy_gives_NaN:
  "avgMSY [stock_zero_msy] = NaN
   \<and> finalIndex [stock_zero_msy] (Finite 27) = NaN
   \<and> finalCollapseRisk [stock_zero_msy] (Finite 27) = NaN"
proof -
  have a: "avgMSY [stock_zero_msy] = NaN"
    by (simp add: avgMSY_def stock_zero_msy_def signed_infinity_def of_length_def)
  have p: "msyPressureScore [stock_zero_msy] = NaN"
    by (simp add: msyPressureScore_def a Math_min_def)
  have i: "finalIndex [stock_zero_msy] (Finite 27) = NaN"
    by (simp add: finalIndex_def sustainabilityIndex_def p js_sub_def Math_min_def Math_max_def
        js_add_NaN_right)
  have c: "finalCollapseRisk [stock_zero_msy] (Finite 27) = NaN"
    by (simp add: finalCollapseRisk_def collapseRisk_def p js_sub_def Math_min_def Math_max_def
        js_add_NaN_right)
  from a i c show ?thesis by simp
qed

lemma foldl_on_data:
  "foldl (on_data q) acc rows = acc @ filter (matches_region q) rows"
  by (induction rows arbitrary: acc) (simp_all add: on_data_def matches_region_def)

text \<open>
  C6. When no record of the file passes the region filter, the response has status 200
  and its body is the object with the single field \<open>count\<close>, of value 0: no scoring
  field is present. The scoring step on the empty list gives the same object.
\<close>

theorem no_match_count_only:
  assumes "\<forall>r\<in>set rows. \<not> matches_region (regionQuery_of region_param) r"
  shows "fisheries region_param sst (Some rows) = (200, JObject [(''count'', JNumber (Finite 0))])
         \<and> json_keys (snd (fisheries region_param sst (Some rows))) = [''count'']
         \<and> scoreRisk [] sst = JObject [(''count'', JNumber (Finite 0))]"
proof -
  have "filter (matches_region (regionQuery_of region_param)) rows = []"
    using assms by (simp add: filter_empty_conv)
  then have "fisheries region_param sst (Some rows)
             = (200, JObject [(''count'', JNumber (Finite 0))])"
    by (simp add: fisheries_def foldl_on_data on_end_def)
  moreover have "scoreRisk [] sst = JObject [(''count'', JNumber (Finite 0))]"
    by (simp add: scoreRisk_def on_end_def)
  ultimately show ?thesis by simp
qed

text \<open>A file with one Indian Ocean record, queried for another region.\<close>

theorem no_match_count_only_witness:
  "\<not> matches_region (regionQuery_of (Some ''Atlantic'')) stock_example
   \<and> fisheries (Some ''Atlantic'') (Finite 27) (Some [stock_example])
       = (200, JObject [(''count'', JNumber (Finite 0))])"
proof -
  have h: "\<forall>r\<in>set [stock_example]. \<not> matches_region (regionQuery_of (Some ''Atlantic'')) r"
    by (simp add: matches_region_def regionQuery_of_def falsy_def toLowerCase_def
        toLowerCase_char_def stock_example_def)
  from h have "\<not> matches_region (regionQuery_of (Some ''Atlantic'')) stock_example"
    by simp
  with no_match_count_only [OF h, of "Finite 27"] show ?thesis by simp
qed


lemma not_decreased_js_add:
  "not_decreased u v \<Longrightarrow> not_decreased (js_add u b) (js_add v b)"
  by (cases u; cases v; cases b) (simp_all add: not_decreased_def js_le_def)

lemma not_decreased_js_add_left:
  "not_decreased u v \<Longrightarrow> not_decreased (js_add a u) (js_add a v)"
  by (cases u; cases v; cases a) (simp_all add: not_decreased_def js_le_def)

lemma not_decreased_js_mul:
  "not_decreased u v \<Longrightarrow> 0 < c \<Longrightarrow> not_decreased (js_mul u (Finite c)) (js_mul v (Finite c))"
  by (cases u; cases v) (simp_all add: not_decreased_def js_le_def signed_infinity_def)

lemma not_decreased_js_div:
  "not_decreased u v \<Longrightarrow> 0 < c \<Longrightarrow> not_decreased (js_div u (Finite c)) (js_div v (Finite c))"
  by (cases u; cases v)
     (simp_all add: not_decreased_def js_le_def signed_infinity_def divide_less_cancel)

lemma not_decreased_Math_round:
  "not_decreased u v \<Longrightarrow> not_decreased (Math_round u) (Math_round v)"
  by (cases u; cases v) (simp_all add: not_decreased_def js_le_def not_less round_mono)

lemma not_decreased_Math_min:
  "not_decreased u v \<Longrightarrow> not_decreased (Math_min (Finite c) u) (Math_min (Finite c) v)"
  by (cases u; cases v) (simp_all add: not_decreased_def js_le_def Math_min_def)

lemma not_decreased_Math_max:
  "not_decreased u v \<Longrightarrow> not_decreased (Math_max (Finite c) u) (Math_max (Finite c) v)"
  by (cases u; cases v) (simp_all add: not_decreased_def js_le_def Math_max_def)

lemma not_decreased_not_js_lt: "not_decreased u v \<Longrightarrow> \<not> js_lt v u"
  by (cases u; cases v) (simp_all add: not_decreased_def js_le_def)

lemma not_decreased_foldl:
  "not_decreased a b \<Longrightarrow>
   not_decreased (foldl (\<lambda>sum s. js_add sum (f s)) a ys) (foldl (\<lambda>sum s. js_add sum (f s)) b ys)"
  by (induction ys arbitrary: a b) (simp_all add: not_decreased_js_add)

lemma avgStockHealth_mono:
  assumes "js_le (stock_health_percent r) h'"
  shows "not_decreased (avgStockHealth (xs @ r # ys))
                       (avgStockHealth (xs @ r\<lparr>stock_health_percent := h'\<rparr> # ys))"
proof -
  let ?f = "\<lambda>sum s. js_add sum (stock_health_percent s)"
  have n: "0 < real (length (xs @ r # ys))" by simp
  have "not_decreased (stock_health_percent r) h'"
    using assms by (simp add: not_decreased_def)
  then have "not_decreased (js_add (foldl ?f (Finite 0) xs) (stock_health_percent r))
                           (js_add (foldl ?f (Finite 0) xs) h')"
    by (rule not_decreased_js_add_left)
  then have "not_decreased (foldl ?f (Finite 0) (xs @ r # ys))
                 (foldl ?f (Finite 0) (xs @ r\<lparr>stock_health_percent := h'\<rparr> # ys))"
    by (simp add: not_decreased_foldl)
  then show ?thesis
    unfolding avgStockHealth_def of_length_def
    using not_decreased_js_div [OF _ n] by simp
qed

lemma msyPressureScore_health_update:
  "msyPressureScore (xs @ r\<lparr>stock_health_percent := v\<rparr> # ys) = msyPressureScore (xs @ r # ys)"
  by (simp add: msyPressureScore_def avgMSY_def of_length_def)

lemma decliningPercent_health_update:
  "decliningPercent (xs @ r\<lparr>stock_health_percent := v\<rparr> # ys) = decliningPercent (xs @ r # ys)"
  by (simp add: decliningPercent_def decliningCount_def of_length_def)

text \<open>
  C5. The sustainability index is monotonic in the stock health of each record: in any
  list, replacing the stock health of one record by a value that is at least as large,
  every other field and record unchanged, never gives a smaller index.
\<close>

theorem stock_health_monotone:
  assumes "js_le (stock_health_percent r) h'"
  shows "\<not> js_lt (finalIndex (xs @ r\<lparr>stock_health_percent := h'\<rparr> # ys) sst)
                 (finalIndex (xs @ r # ys) sst)"
proof -
  let ?old = "xs @ r # ys" and ?new = "xs @ r\<lparr>stock_health_percent := h'\<rparr> # ys"
  have half: "(0::real) < 0.5" by simp
  have "not_decreased (js_mul (avgStockHealth ?old) (Finite 0.5))
                      (js_mul (avgStockHealth ?new) (Finite 0.5))"
    by (rule not_decreased_js_mul [OF avgStockHealth_mono [OF assms] half])
  then have "not_decreased (sustainabilityIndex ?old sst) (sustainabilityIndex ?new sst)"
    unfolding sustainabilityIndex_def msyPressureScore_health_update
      decliningPercent_health_update
    by (intro not_decreased_js_add)
  then have "not_decreased (finalIndex ?old sst) (finalIndex ?new sst)"
    unfolding finalIndex_def
    by (intro not_decreased_Math_max not_decreased_Math_min not_decreased_Math_round)
  then show ?thesis by (rule not_decreased_not_js_lt)
qed

text \<open>Raising the stock health of the first of two records from 40 to 90: 47 becomes 59.\<close>

theorem stock_health_monotone_witness:
  "js_le (stock_health_percent stock_example2) (Finite 90)
   \<and> finalIndex [stock_example2, stock_example] (Finite 27) = Finite 47
   \<and> finalIndex [stock_example2\<lparr>stock_health_percent := Finite 90\<rparr>, stock_example] (Finite 27)
       = Finite 59
   \<and> \<not> js_lt (finalIndex [stock_example2\<lparr>stock_health_percent := Finite 90\<rparr>, stock_example]
                   (Finite 27))
                (finalIndex [stock_example2, stock_example] (Finite 27))"
proof -
  have h: "js_le (stock_health_percent stock_example2) (Finite 90)"
    by (simp add: stock_example2_def js_le_def)
  have p: "msyPressureScore [stock_example2, stock_example] = Finite (175 / 2)"
    by (simp add: msyPressureScore_def avgMSY_def of_length_def Math_min_def
        stock_example_def stock_example2_def)
  have d: "decliningPercent [stock_example2, stock_example] = Finite 50"
    by (simp add: decliningPercent_def decliningCount_def of_length_def
        stock_example_def stock_example2_def)
  have c: "climateScore (Finite 27) = Finite 40"
    by (simp add: climateScore_def js_gt_def)
  have a: "avgStockHealth [stock_example2, stock_example] = Finite 60"
    by (simp add: avgStockHealth_def of_length_def stock_example_def stock_example2_def)
  have old: "finalIndex [stock_example2, stock_example] (Finite 27) = Finite 47"
    by (simp add: finalIndex_def sustainabilityIndex_def a p d c js_sub_def
        Math_min_def Math_max_def round_def)
  have a': "avgStockHealth [stock_example2\<lparr>stock_health_percent := Finite 90\<rparr>, stock_example]
            = Finite 85"
    by (simp add: avgStockHealth_def of_length_def stock_example_def stock_example2_def)
  have new: "finalIndex [stock_example2\<lparr>stock_health_percent := Finite 90\<rparr>, stock_example]
               (Finite 27) = Finite 59"
    using msyPressureScore_health_update
        [where xs = "[]" and r = stock_example2 and v = "Finite 90" and ys = "[stock_example]"]
      decliningPercent_health_update
        [where xs = "[]" and r = stock_example2 and v = "Finite 90" and ys = "[stock_example]"]
    by (simp add: finalIndex_def sustainabilityIndex_def a' p d c js_sub_def
        Math_min_def Math_max_def round_def)
  have m: "\<not> js_lt (finalIndex [stock_example2\<lparr>stock_health_percent := Finite 90\<rparr>, stock_example]
                       (Finite 27))
                    (finalIndex [stock_example2, stock_example] (Finite 27))"
    using stock_health_monotone [OF h, of "[]" "[stock_example]" "Finite 27"] by simp
  from h old new m show ?thesis by (intro conjI)
qed

section \<open>Properties of the decision logic\<close>

text \<open>
  C7. The rules of the suitability evaluation are checked in a fixed order, the first one
  that applies giving the result: protection, then the season, then the temperature
  range, then the wave limit. In particular a species that is protected and outside its
  temperature range is reported unsuitable with the protection reason, not with the
  temperature reason.
\<close>

theorem evaluateSuitability_priority:
  "evaluateSuitability now s c = first_match (spec_rules now s c) suitable_verdict
   \<and> (legal_status s = ''Protected'' \<and> outside_temp_range s c \<longrightarrow>
        evaluateSuitability now s c = protected_verdict
        \<and> reason (evaluateSuitability now s c) \<noteq> reason (temperature_verdict s c))"
  by (simp add: evaluateSuitability_def spec_rules_def protected_verdict_def season_verdict_def
      temperature_verdict_def wave_verdict_def suitable_verdict_def outside_temp_range_def Let_def)

text \<open>A protected species in water of 31 degrees, outside its range of 20 to 28.\<close>

theorem evaluateSuitability_priority_witness:
  "legal_status species_protected = ''Protected''
   \<and> outside_temp_range species_protected conditions_hot
   \<and> evaluateSuitability july species_protected conditions_hot = protected_verdict"
proof -
  have p: "legal_status species_protected = ''Protected''"
    by (simp add: species_protected_def)
  have t: "outside_temp_range species_protected conditions_hot"
    by (simp add: outside_temp_range_def species_protected_def species_example_def
        conditions_hot_def js_gt_def)
  have "evaluateSuitability july species_protected conditions_hot = protected_verdict"
    using conjunct2 [OF evaluateSuitability_priority [of july species_protected conditions_hot]] p t
    by simp
  with p t show ?thesis by simp
qed

text \<open>
  C2 does not hold as stated: the same species and conditions give different results in
  January and in July, when the season runs from June to August. The result depends on
  the wall clock.
\<close>

theorem evaluateSuitability_clock_counterexample:
  "evaluateSuitability january species_seasonal conditions_example = season_verdict
   \<and> evaluateSuitability july species_seasonal conditions_example = suitable_verdict
   \<and> evaluateSuitability january species_seasonal conditions_example
       \<noteq> evaluateSuitability july species_seasonal conditions_example"
  by (simp add: evaluateSuitability_def species_seasonal_def species_example_def
      conditions_example_def january_def july_def season_verdict_def suitable_verdict_def
      includes_number_def js_gt_def Let_def)

text \<open>
  C2, amended. The suitability evaluation is a function of its two arguments and of the
  calendar month that it reads from the wall clock: two calls with the same species and
  the same conditions, made in the same calendar month, return the same result, whatever
  the year, the day and the hour.
\<close>

theorem evaluateSuitability_same_month:
  assumes "getMonth now1 = getMonth now2"
  shows "evaluateSuitability now1 s c = evaluateSuitability now2 s c"
  using assms by (simp add: evaluateSuitability_def)

text \<open>Two readings of the clock in January, a year apart.\<close>

theorem evaluateSuitability_same_month_witness:
  "getMonth january = getMonth january_later \<and> january \<noteq> january_later
   \<and> evaluateSuitability january species_seasonal conditions_example
       = evaluateSuitability january_later species_seasonal conditions_example"
proof -
  have m: "getMonth january = getMonth january_later"
    by (simp add: january_def january_later_def)
  have d: "january \<noteq> january_later"
    by (simp add: january_def january_later_def)
  from m d evaluateSuitability_same_month [OF m, of species_seasonal conditions_example]
  show ?thesis by simp
qed



lemma sum_list_bounds:
  fixes f :: "'a \<Rightarrow> real"
  assumes "\<forall>x\<in>set xs. lo \<le> f x \<and> f x \<le> hi"
  shows "lo * real (length xs) \<le> (\<Sum>x\<leftarrow>xs. f x) \<and> (\<Sum>x\<leftarrow>xs. f x) \<le> hi * real (length xs)"
  using assms by (induction xs) (auto simp: algebra_simps)

lemma spec_mean_bounds:
  fixes f :: "'a \<Rightarrow> real"
  assumes "xs \<noteq> []" and "\<forall>x\<in>set xs. lo \<le> f x \<and> f x \<le> hi"
  shows "lo \<le> spec_mean (map f xs) \<and> spec_mean (map f xs) \<le> hi"
proof -
  have n: "0 < real (length xs)" using assms(1) by simp
  from sum_list_bounds [OF assms(2)] n show ?thesis
    by (simp add: spec_mean_def pos_le_divide_eq pos_divide_le_eq)
qed




lemma foldl_forEach_species:
  "foldl forEach_species alerts sl = alerts @ concat (map spec_species_alerts sl)"
  by (induction sl arbitrary: alerts)
     (simp_all add: forEach_species_def spec_species_alerts_def stock_alert_def
        protected_alert_def Let_def)

text \<open>
  C9. The alerts are emitted in the order of the rules and none suppresses another: the
  danger alert when the wave height exceeds 3, then the warning when the sustainability
  score is below 60, then for each species in list order the warning when its stock
  health is below 50 followed by the information alert when it is protected. Every alert
  that applies is in the list, once for each rule and species that produces it.
\<close>

theorem generateFisheriesAlerts_order:
  "generateFisheriesAlerts sl score c = spec_alerts sl score c"
  by (simp add: generateFisheriesAlerts_def spec_alerts_def foldl_forEach_species
      danger_alert_def low_index_alert_def Let_def)

text \<open>
  A rough sea, a low score and a protected species with a low stock: four alerts, two of
  them for the same species.
\<close>

theorem generateFisheriesAlerts_order_witness:
  "generateFisheriesAlerts [species_protected, species_example] (Finite 55)
     \<lparr>sea_surface_temp = Finite 25, wave_height = Finite 3.5\<rparr>
   = [danger_alert, low_index_alert, stock_alert species_protected,
      protected_alert species_protected]"
  using generateFisheriesAlerts_order [of "[species_protected, species_example]" "Finite 55"
      "\<lparr>sea_surface_temp = Finite 25, wave_height = Finite 3.5\<rparr>"]
  by (simp add: spec_alerts_def spec_species_alerts_def js_gt_def species_protected_def
      species_example_def)

section \<open>Properties of the statistics engine\<close>

lemma valid_values_filter:
  "valid_values (filter (\<lambda>obs. valid_value key obs \<noteq> None) series) key = valid_values series key"
  by (induction series) (auto simp: valid_values_def List.map_filter_simps split: option.splits)

lemma mean_between_Min_Max:
  fixes xs :: "real list"
  assumes "xs \<noteq> []"
  shows "Min (set xs) \<le> sum_list xs / real (length xs)
         \<and> sum_list xs / real (length xs) \<le> Max (set xs)"
proof -
  have "\<forall>x\<in>set xs. Min (set xs) \<le> (\<lambda>x. x) x \<and> (\<lambda>x. x) x \<le> Max (set xs)"
    by simp
  from spec_mean_bounds [OF assms this] show ?thesis
    by (simp add: spec_mean_def)
qed

lemma js_le_Finite: "js_le (Finite a) (Finite b) = (a \<le> b)"
  by (simp add: js_le_def not_less)

text \<open>
  C10. The statistics ignore the observations whose value for the parameter is missing or
  not a number: removing them from the series changes no statistic. When at least one
  value is valid, the minimum is at most the mean and the mean at most the maximum. When
  none is valid, every statistic is zero; none is \<open>NaN\<close>.
\<close>

theorem computeStats_bounds:
  "computeStats (filter (\<lambda>obs. valid_value key obs \<noteq> None) series) key = computeStats series key
   \<and> (valid_values series key \<noteq> [] \<longrightarrow>
        js_le (min_stat (computeStats series key)) (mean (computeStats series key))
        \<and> js_le (mean (computeStats series key)) (max_stat (computeStats series key)))
   \<and> (valid_values series key = [] \<longrightarrow>
        computeStats series key =
          \<lparr>mean = Finite 0, stdDev = Finite 0, min_stat = Finite 0, max_stat = Finite 0,
           anomalyCount = 0, moderateCount = 0, extremeCount = 0\<rparr>)"
proof (intro conjI impI)
  show "computeStats (filter (\<lambda>obs. valid_value key obs \<noteq> None) series) key
        = computeStats series key"
    by (simp only: computeStats_def valid_values_filter)
next
  assume ne: "valid_values series key \<noteq> []"
  let ?xs = "valid_values series key"
  have f: "mean (computeStats series key) = Finite (sum_list ?xs / real (length ?xs))"
    "min_stat (computeStats series key) = Finite (Min (set ?xs))"
    "max_stat (computeStats series key) = Finite (Max (set ?xs))"
    using ne by (simp_all add: computeStats_def Let_def)
  note b = mean_between_Min_Max [OF ne]
  show "js_le (min_stat (computeStats series key)) (mean (computeStats series key))"
    unfolding f js_le_Finite by (rule conjunct1 [OF b])
  show "js_le (mean (computeStats series key)) (max_stat (computeStats series key))"
    unfolding f js_le_Finite by (rule conjunct2 [OF b])
next
  assume "valid_values series key = []"
  then show "computeStats series key =
          \<lparr>mean = Finite 0, stdDev = Finite 0, min_stat = Finite 0, max_stat = Finite 0,
           anomalyCount = 0, moderateCount = 0, extremeCount = 0\<rparr>"
    by (simp add: computeStats_def)
qed

lemma valid_values_example: "valid_values series_example ''WTMP'' = [10, 10, 10, 10, 50]"
  by (simp add: valid_values_def series_example_def reading_def valid_value_def
      List.map_filter_simps)

text \<open>The series of the scenario: a mean of 18 between the minimum and the maximum.\<close>

theorem computeStats_bounds_witness:
  "valid_values series_example ''WTMP'' \<noteq> []
   \<and> mean (computeStats series_example ''WTMP'') = Finite 18
   \<and> js_le (min_stat (computeStats series_example ''WTMP'')) (mean (computeStats series_example ''WTMP''))
   \<and> js_le (mean (computeStats series_example ''WTMP'')) (max_stat (computeStats series_example ''WTMP''))"
proof -
  have ne: "valid_values series_example ''WTMP'' \<noteq> []"
    by (simp add: valid_values_example)
  have m: "mean (computeStats series_example ''WTMP'') = Finite 18"
    by (simp add: computeStats_def valid_values_example Let_def)
  from ne m computeStats_bounds [of "''WTMP''" series_example] show ?thesis
    by simp
qed

end
